theory Spec2Isabelle
  imports Main
begin

section \<open>The notification coordinator (\<open>useShowMessage\<close>)\<close>

text \<open>
  A shallow embedding of the composable \<open>useShowMessage\<close>: the module-level array
  \<open>stickyNotificationQueue\<close> and everything the collaborators observe (notifications
  created, \<open>close()\<close> calls, telemetry events, external hooks, modal dialogs, caller
  callbacks) are fields of an explicit state \<open>world\<close>, threaded through every operation.
  The collaborators whose code lives elsewhere (\<open>sanitizeHtml\<close>, \<open>locale.baseText\<close>,
  the workflows store, the modal dialog and the user in front of it) are parameters,
  gathered in the record \<open>collaborators\<close>.

  A JavaScript string is modelled as a \<open>string\<close>, one \<open>char\<close> per UTF-16 code unit;
  \<open>undefined\<close> is \<open>None\<close>. A string is falsy when it is \<open>undefined\<close> or empty.
\<close>

subsection \<open>JavaScript values\<close>

datatype js_val = JUndefined | JBool bool | JStr string

definition js_opt :: "string option \<Rightarrow> js_val" where
  "js_opt v = (case v of None \<Rightarrow> JUndefined | Some s \<Rightarrow> JStr s)"

text \<open>Truthiness of a value of type \<open>string | undefined\<close>.\<close>

definition truthy :: "string option \<Rightarrow> bool" where
  "truthy v = (case v of None \<Rightarrow> False | Some s \<Rightarrow> s \<noteq> [])"

text \<open>\<open>a || b\<close> on strings: \<open>a\<close> when it is truthy, \<open>b\<close> otherwise.\<close>

definition or_else :: "string option \<Rightarrow> string \<Rightarrow> string" where
  "or_else a b = (case a of None \<Rightarrow> b | Some s \<Rightarrow> if s \<noteq> [] then s else b)"

text \<open>\<open>a || b\<close> where both sides may be \<open>undefined\<close>.\<close>

definition str_or :: "string option \<Rightarrow> string option \<Rightarrow> string option" where
  "str_or a b = (if truthy a then a else b)"

text \<open>Interpolation \<^verbatim>\<open>${v}\<close> in a template literal: \<open>undefined\<close> prints as such.\<close>

definition interp :: "string option \<Rightarrow> string" where
  "interp v = (case v of None \<Rightarrow> ''undefined'' | Some s \<Rightarrow> s)"

text \<open>A parameter with a default value: the default stands in for \<open>undefined\<close>.\<close>

definition with_default :: "'a \<Rightarrow> 'a option \<Rightarrow> 'a" where
  "with_default d a = (case a of None \<Rightarrow> d | Some v \<Rightarrow> v)"

text \<open>
  \<open>String.prototype.includes\<close>: does \<open>sub\<close> occur in \<open>s\<close> at some position?
  \<open>starts_with s sub\<close> compares at position 0, \<open>str_includes\<close> tries every position.
\<close>

definition starts_with :: "string \<Rightarrow> string \<Rightarrow> bool" where
  "starts_with s sub = (take (length sub) s = sub)"

fun str_includes :: "string \<Rightarrow> string \<Rightarrow> bool" where
  "str_includes [] sub = (sub = [])"
| "str_includes (x # xs) sub = (starts_with (x # xs) sub \<or> str_includes xs sub)"

text \<open>\<open>String.prototype.slice(0, n)\<close> for \<open>n \<ge> 0\<close>.\<close>

definition slice0 :: "nat \<Rightarrow> string \<Rightarrow> string" where
  "slice0 n s = take n s"

text \<open>A newline followed by \<open>n\<close> tabs, the indentation inside the template literals.\<close>

definition nl :: "nat \<Rightarrow> string" where
  "nl n = CHR 0x0A # replicate n (CHR 0x09)"

definition dquote :: string where
  "dquote = [CHR 0x22]"

subsection \<open>Data\<close>

text \<open>\<open>MessageType\<close> of the component library: the severity of a notification.\<close>

datatype MessageType = TSuccess | TWarning | TInfo | TError

text \<open>
  A notification handle (\<open>ElNotificationComponent\<close>) is an object; its identity is the
  index of the \<open>Notification(...)\<close> call that created it.
\<close>

type_synonym handle = nat

text \<open>
  Click and close handlers are functions of the caller. \<open>Callback k\<close> is the caller's
  function number \<open>k\<close>; \<open>CloseThenCall h cb\<close> is the closure that \<open>showToast\<close> builds:
  \<^verbatim>\<open>() => { notification?.close?.(); if (cb) { cb(); } }\<close>.
\<close>

datatype handler = Callback nat | CloseThenCall handle "handler option"

text \<open>The fields of \<open>ElNotificationOptions\<close> that the composable reads or writes.
  A \<open>duration\<close> is a number of milliseconds, modelled as an integer; the source
  compares it with \<open>0\<close> only.\<close>

record notification_options =
  opt_title :: string
  opt_message :: "string option"
  opt_type :: "MessageType option"
  opt_duration :: "int option"
  opt_position :: "string option"
  opt_onClick :: "handler option"
  opt_onClose :: "handler option"
  opt_customClass :: "string option"
  opt_dangerouslyUseHTMLString :: "bool option"

text \<open>The parameter object of \<open>showToast\<close>.\<close>

record toast_config =
  cfg_title :: string
  cfg_message :: string
  cfg_onClick :: "handler option"
  cfg_onClose :: "handler option"
  cfg_duration :: "int option"
  cfg_customClass :: "string option"
  cfg_closeOnClick :: "bool option"
  cfg_type :: "MessageType option"

text \<open>\<open>ElMessageBoxOptions\<close> as the two confirm operations build it.\<close>

record messagebox_options =
  mb_confirmButtonText :: string
  mb_cancelButtonText :: string
  mb_dangerouslyUseHTMLString :: bool
  mb_showClose :: "bool option"
  mb_type :: "MessageType option"

text \<open>The fields of \<open>ElMessageOptions\<close>, the parameter of \<open>showAlert\<close>.\<close>

record alert_options =
  alert_message :: string
  alert_type :: "MessageType option"
  alert_duration :: "int option"

text \<open>
  The error object handed to \<open>showError\<close>. \<open>message\<close> is a field of \<open>Error\<close>;
  \<open>description\<close> and \<open>node\<close> are read by destructuring outside the declared type
  (the source silences the type checker there), so either may be \<open>undefined\<close>.
\<close>

datatype inode = INode (node_name: string)

record js_error =
  err_message :: string
  err_description :: "string option"
  err_node :: "inode option"

text \<open>
  The run data read by \<open>getExecutionError\<close>: \<open>data.resultData.lastNodeExecuted\<close> and
  \<open>data.resultData.error\<close>. The error's \<open>node\<close> key is absent (\<open>None\<close>) or present;
  when present its value is a plain string, a node object, or \<open>undefined\<close> or \<open>null\<close>
  (\<open>NodeNullish\<close>): the source writes \<open>error.node!\<close>, an assertion that is erased
  when the program is compiled and checks nothing when it runs.
\<close>

datatype node_ref = NodeString string | NodeObject inode | NodeNullish

record execution_error =
  ee_message :: "string option"
  ee_description :: "string option"
  ee_node :: "node_ref option"

record result_data =
  lastNodeExecuted :: "string option"
  error :: "execution_error option"

record run_data =
  resultData :: result_data

text \<open>What the user does with a modal dialog: the promise of \<open>$confirm\<close> resolves, is
  rejected with a value, or stays pending for ever (the dialog has no timeout).\<close>

datatype dialog_outcome = Resolves | Rejects js_val | Pending

text \<open>The state of the promise an \<open>async\<close> function returns.\<close>

datatype 'a promise = Fulfilled 'a | Rejected js_val | Unsettled

datatype js_exception = TypeError

type_synonym payload = "(string \<times> js_val) list"

record collaborators =
  sanitizeHtml :: "string \<Rightarrow> string"
  baseText :: "string \<Rightarrow> string"
  workflowId :: string
  confirm_dialog :: "string \<Rightarrow> string \<Rightarrow> messagebox_options \<Rightarrow> dialog_outcome"

record world =
  stickyNotificationQueue :: "handle list"
  notifications :: "notification_options list"
  closes :: "handle list"
  telemetry :: "(string \<times> payload) list"
  hooks :: "(string \<times> payload) list"
  dialogs :: "(string \<times> string \<times> messagebox_options) list"
  alerts :: "alert_options list"
  callbacks :: "nat list"

definition initial_world :: world where
  "initial_world = \<lparr>stickyNotificationQueue = [], notifications = [], closes = [],
     telemetry = [], hooks = [], dialogs = [], alerts = [], callbacks = []\<rparr>"

subsection \<open>The primitives of the collaborators\<close>

text \<open>\<open>Notification(options)\<close> creates a new component and returns it.\<close>

definition Notification :: "notification_options \<Rightarrow> world \<Rightarrow> handle \<times> world" where
  "Notification opts s =
     (length (notifications s), s\<lparr>notifications := notifications s @ [opts]\<rparr>)"

text \<open>\<open>notification.close()\<close>: the call is recorded; closing twice is harmless.\<close>

definition close :: "handle \<Rightarrow> world \<Rightarrow> world" where
  "close h s = s\<lparr>closes := closes s @ [h]\<rparr>"

definition track :: "string \<Rightarrow> payload \<Rightarrow> world \<Rightarrow> world" where
  "track name props s = s\<lparr>telemetry := telemetry s @ [(name, props)]\<rparr>"

definition run_hook :: "string \<Rightarrow> payload \<Rightarrow> world \<Rightarrow> world" where
  "run_hook name props s = s\<lparr>hooks := hooks s @ [(name, props)]\<rparr>"

text \<open>Running a handler: the caller's function is recorded, the closure of \<open>showToast\<close>
  closes its notification and then calls the wrapped handler, if there is one.\<close>

fun run_handler :: "handler \<Rightarrow> world \<Rightarrow> world" where
  "run_handler (Callback k) s = s\<lparr>callbacks := callbacks s @ [k]\<rparr>"
| "run_handler (CloseThenCall h None) s = close h s"
| "run_handler (CloseThenCall h (Some cb)) s = run_handler cb (close h s)"

text \<open>A click on the displayed notification \<open>h\<close> runs the \<open>onClick\<close> of its options.\<close>

definition click :: "handle \<Rightarrow> world \<Rightarrow> world" where
  "click h s =
     (if h < length (notifications s)
      then (case opt_onClick (notifications s ! h) of None \<Rightarrow> s | Some f \<Rightarrow> run_handler f s)
      else s)"

subsection \<open>causedByCredential\<close>

definition causedByCredential :: "string option \<Rightarrow> bool" where
  "causedByCredential message =
     (case message of
        None \<Rightarrow> False
      | Some m \<Rightarrow>
          if m = [] then False
          else str_includes m ''Credentials for'' \<and> str_includes m ''are not set'')"

subsection \<open>collapsableDetails\<close>

definition collapsableDetails :: "collaborators \<Rightarrow> js_error \<Rightarrow> js_exception + string" where
  "collapsableDetails c e =
     (case err_description e of
        None \<Rightarrow> Inr []
      | Some description \<Rightarrow>
          if description = [] then Inr []
          else
            let errorDescription =
                  (if length description > 500 then slice0 500 description @ ''...''
                   else description)
            in (case err_node e of
                  None \<Rightarrow> Inl TypeError
                | Some node \<Rightarrow>
                    Inr (nl 4 @ ''<br>'' @ nl 4 @ ''<br>'' @ nl 4 @ ''<details>''
                         @ nl 5 @ ''<summary''
                         @ nl 6 @ ''style='' @ dquote
                         @ ''color: #ff6d5a; font-weight: bold; cursor: pointer;'' @ dquote
                         @ nl 5 @ ''>''
                         @ nl 6 @ baseText c ''showMessage.showDetails''
                         @ nl 5 @ ''</summary>''
                         @ nl 5 @ ''<p>'' @ node_name node @ '': '' @ errorDescription @ ''</p>''
                         @ nl 4 @ ''</details>''
                         @ nl 3)))"

subsection \<open>clearAllStickyNotifications\<close>

text \<open>\<open>stickyNotificationQueue.map(n => { if (n) n.close(); })\<close>: a handle is an object,
  so the guard holds for every entry; then the queue is replaced by the empty array.\<close>

definition clearAllStickyNotifications :: "world \<Rightarrow> world" where
  "clearAllStickyNotifications s =
     (fold close (stickyNotificationQueue s) s)\<lparr>stickyNotificationQueue := []\<rparr>"

subsection \<open>showMessage\<close>

text \<open>\<^verbatim>\<open>message ? sanitizeHtml(message) : message\<close>: a falsy message is left as it is.\<close>

definition sanitized_message :: "collaborators \<Rightarrow> string option \<Rightarrow> string option" where
  "sanitized_message c m = (if truthy m then map_option (sanitizeHtml c) m else m)"

definition showMessage ::
  "collaborators \<Rightarrow> notification_options \<Rightarrow> bool option \<Rightarrow> world \<Rightarrow> handle \<times> world" where
  "showMessage c messageData track_arg s =
     (let trackErrors = with_default True track_arg;
          md1 = messageData\<lparr>opt_dangerouslyUseHTMLString := Some True\<rparr>;
          md2 = md1\<lparr>opt_message := sanitized_message c (opt_message md1)\<rparr>;
          md3 = (if opt_position md2 = None then md2\<lparr>opt_position := Some ''bottom-right''\<rparr>
                 else md2);
          (notification, s1) = Notification md3 s;
          s2 = (if opt_duration md3 = Some 0
                then s1\<lparr>stickyNotificationQueue := stickyNotificationQueue s1 @ [notification]\<rparr>
                else s1);
          s3 = (if opt_type md3 = Some TError \<and> trackErrors
                then track ''Instance FE emitted error''
                       [(''error_title'', JStr (opt_title md3)),
                        (''error_message'', js_opt (opt_message md3)),
                        (''caused_by_credential'', JBool (causedByCredential (opt_message md3))),
                        (''workflow_id'', JStr (workflowId c))] s2
                else s2)
      in (notification, s3))"

subsection \<open>showToast\<close>

text \<open>Returns the notification together with the caller's \<open>config\<close> object, which the
  function mutates.\<close>

definition showToast ::
  "collaborators \<Rightarrow> toast_config \<Rightarrow> world \<Rightarrow> handle \<times> toast_config \<times> world" where
  "showToast c config s =
     (let (notification, s1) =
            showMessage c
              \<lparr>opt_title = cfg_title config,
               opt_message = Some (cfg_message config),
               opt_type = cfg_type config,
               opt_duration = cfg_duration config,
               opt_position = None,
               opt_onClick = cfg_onClick config,
               opt_onClose = cfg_onClose config,
               opt_customClass = cfg_customClass config,
               opt_dangerouslyUseHTMLString = None\<rparr> None s;
          config' =
            (if cfg_closeOnClick config = Some True
             then (let cb = cfg_onClick config
                   in config\<lparr>cfg_onClick := Some (CloseThenCall notification cb)\<rparr>)
             else config)
      in (notification, config', s1))"

subsection \<open>showAlert\<close>

text \<open>\<open>Message(config)\<close>: a lightweight message of the component library; its handle is
  the index of the call.\<close>

definition showAlert :: "alert_options \<Rightarrow> world \<Rightarrow> nat \<times> world" where
  "showAlert config s = (length (alerts s), s\<lparr>alerts := alerts s @ [config]\<rparr>)"

subsection \<open>getExecutionError\<close>

definition generic_failure :: string where
  "generic_failure = ''There was a problem executing the workflow!''"

text \<open>
  \<open>'node' in error\<close> asks for the key only; \<open>typeof error.node === 'string'\<close> picks
  the plain name, and every other value goes to \<open>error.node!.name\<close>, which raises a
  \<open>TypeError\<close> on \<open>undefined\<close> and on \<open>null\<close>.
\<close>

definition getExecutionError :: "run_data \<Rightarrow> js_exception + string option" where
  "getExecutionError data =
     (let err = error (resultData data)
      in case (truthy (lastNodeExecuted (resultData data)), err) of
           (True, Some e) \<Rightarrow> Inr (str_or (ee_message e) (ee_description e))
         | _ \<Rightarrow>
             (case err of
                None \<Rightarrow> Inr (Some generic_failure)
              | Some e \<Rightarrow>
                  if truthy (ee_message e)
                  then
                    (case (case ee_node e of
                             None \<Rightarrow> Inr None
                           | Some (NodeString n) \<Rightarrow> Inr (Some n)
                           | Some (NodeObject n) \<Rightarrow> Inr (Some (node_name n))
                           | Some NodeNullish \<Rightarrow> Inl TypeError) of
                       Inl raised \<Rightarrow> Inl raised
                     | Inr nodeName \<Rightarrow>
                         let receivedError =
                               (if truthy nodeName
                                then interp nodeName @ '': '' @ interp (ee_message e)
                                else interp (ee_message e))
                         in Inr (Some (''There was a problem executing the workflow:<br /><strong>''
                                       @ dquote @ receivedError @ dquote @ ''</strong>'')))
                  else Inr (Some generic_failure)))"

subsection \<open>showError\<close>

definition showError ::
  "collaborators \<Rightarrow> js_error \<Rightarrow> string \<Rightarrow> string option \<Rightarrow> world \<Rightarrow> js_exception + world" where
  "showError c e title message s =
     (let messageLine = (if truthy message then interp message @ ''<br/>'' else [])
      in case collapsableDetails c e of
           Inl x \<Rightarrow> Inl x
         | Inr details \<Rightarrow>
             let (notification, s1) =
                   showMessage c
                     \<lparr>opt_title = title,
                      opt_message = Some (nl 5 @ messageLine
                                          @ nl 5 @ ''<i>'' @ err_message e @ ''</i>''
                                          @ nl 5 @ details),
                      opt_type = Some TError,
                      opt_duration = Some 0,
                      opt_position = None,
                      opt_onClick = None,
                      opt_onClose = None,
                      opt_customClass = None,
                      opt_dangerouslyUseHTMLString = None\<rparr> (Some False) s;
                 s2 = run_hook ''showMessage.showError''
                        [(''title'', JStr title),
                         (''message'', js_opt message),
                         (''errorMessage'', JStr (err_message e))] s1;
                 s3 = track ''Instance FE emitted error''
                        [(''error_title'', JStr title),
                         (''error_description'', js_opt message),
                         (''error_message'', JStr (err_message e)),
                         (''caused_by_credential'', JBool (causedByCredential (Some (err_message e)))),
                         (''workflow_id'', JStr (workflowId c))] s2
             in Inr s3)"

subsection \<open>confirmMessage and confirmModal\<close>

text \<open>\<open>await new Dialog().$confirm(message, headline, options)\<close>: the dialog is
  presented (recorded in \<open>dialogs\<close>) and the user's answer settles the promise.\<close>

definition dollar_confirm ::
  "collaborators \<Rightarrow> string \<Rightarrow> string \<Rightarrow> messagebox_options \<Rightarrow> world \<Rightarrow> unit promise \<times> world" where
  "dollar_confirm c message headline options s =
     ((case confirm_dialog c message headline options of
         Resolves \<Rightarrow> Fulfilled ()
       | Rejects e \<Rightarrow> Rejected e
       | Pending \<Rightarrow> Unsettled),
      s\<lparr>dialogs := dialogs s @ [(message, headline, options)]\<rparr>)"

text \<open>\<open>try { ... } catch (e) { ... }\<close> around an awaited computation.\<close>

definition try_catch :: "'a promise \<times> world \<Rightarrow> (js_val \<Rightarrow> 'a) \<Rightarrow> 'a promise \<times> world" where
  "try_catch body handler_fn =
     (case fst body of
        Rejected e \<Rightarrow> (Fulfilled (handler_fn e), snd body)
      | _ \<Rightarrow> body)"

text \<open>What follows an \<open>await\<close> runs when the awaited promise is fulfilled.\<close>

definition then_return :: "unit promise \<times> world \<Rightarrow> 'a \<Rightarrow> 'a promise \<times> world" where
  "then_return awaited v =
     (case fst awaited of
        Fulfilled _ \<Rightarrow> (Fulfilled v, snd awaited)
      | Rejected e \<Rightarrow> (Rejected e, snd awaited)
      | Unsettled \<Rightarrow> (Unsettled, snd awaited))"

definition confirmMessage_options ::
  "collaborators \<Rightarrow> MessageType option option \<Rightarrow> string option \<Rightarrow> string option \<Rightarrow> messagebox_options"
  where
  "confirmMessage_options c type_arg confirmButtonText cancelButtonText =
     \<lparr>mb_confirmButtonText = or_else confirmButtonText (baseText c ''showMessage.ok''),
      mb_cancelButtonText = or_else cancelButtonText (baseText c ''showMessage.cancel''),
      mb_dangerouslyUseHTMLString = True,
      mb_showClose = None,
      mb_type = with_default (Some TWarning) type_arg\<rparr>"

definition confirmMessage ::
  "collaborators \<Rightarrow> string \<Rightarrow> string \<Rightarrow> MessageType option option \<Rightarrow> string option \<Rightarrow> string option
     \<Rightarrow> world \<Rightarrow> bool promise \<times> world" where
  "confirmMessage c message headline type_arg confirmButtonText cancelButtonText s =
     try_catch
       (let options = confirmMessage_options c type_arg confirmButtonText cancelButtonText;
            sanitizedMessage = sanitizeHtml c message
        in then_return (dollar_confirm c sanitizedMessage headline options s) True)
       (\<lambda>e. False)"

definition confirmModal_options ::
  "collaborators \<Rightarrow> MessageType option option \<Rightarrow> string option \<Rightarrow> string option \<Rightarrow> bool option
     \<Rightarrow> messagebox_options" where
  "confirmModal_options c type_arg confirmButtonText cancelButtonText showClose_arg =
     \<lparr>mb_confirmButtonText = or_else confirmButtonText (baseText c ''showMessage.ok''),
      mb_cancelButtonText = or_else cancelButtonText (baseText c ''showMessage.cancel''),
      mb_dangerouslyUseHTMLString = True,
      mb_showClose = Some (with_default False showClose_arg),
      mb_type = with_default (Some TWarning) type_arg\<rparr>"

definition confirmModal ::
  "collaborators \<Rightarrow> string \<Rightarrow> string \<Rightarrow> MessageType option option \<Rightarrow> string option \<Rightarrow> string option
     \<Rightarrow> bool option \<Rightarrow> world \<Rightarrow> js_val promise \<times> world" where
  "confirmModal c message headline type_arg confirmButtonText cancelButtonText showClose_arg s =
     try_catch
       (let options =
              confirmModal_options c type_arg confirmButtonText cancelButtonText showClose_arg;
            sanitizedMessage = sanitizeHtml c message
        in then_return (dollar_confirm c sanitizedMessage headline options s) (JStr ''confirmed''))
       (\<lambda>e. e)"

subsection \<open>Reachable states and the queue invariant\<close>

text \<open>
  The states the coordinator can be in: it starts with an empty queue and nothing shown,
  and every step is one of its operations, or the user closing or clicking a
  notification on the screen.
\<close>

inductive reachable :: "collaborators \<Rightarrow> world \<Rightarrow> bool" for c :: collaborators where
  r_init: "reachable c initial_world"
| r_showMessage: "reachable c s \<Longrightarrow> reachable c (snd (showMessage c md t s))"
| r_showToast: "reachable c s \<Longrightarrow> reachable c (snd (snd (showToast c config s)))"
| r_showAlert: "reachable c s \<Longrightarrow> reachable c (snd (showAlert config s))"
| r_showError: "reachable c s \<Longrightarrow> showError c e title m s = Inr s' \<Longrightarrow> reachable c s'"
| r_clear: "reachable c s \<Longrightarrow> reachable c (clearAllStickyNotifications s)"
| r_confirmMessage:
    "reachable c s \<Longrightarrow> reachable c (snd (confirmMessage c message headline ty cbt cnt s))"
| r_confirmModal:
    "reachable c s \<Longrightarrow> reachable c (snd (confirmModal c message headline ty cbt cnt sc s))"
| r_close: "reachable c s \<Longrightarrow> h < length (notifications s) \<Longrightarrow> reachable c (close h s)"
| r_click: "reachable c s \<Longrightarrow> reachable c (click h s)"

text \<open>The queue holds no handle twice, and only handles of notifications that were
  created.\<close>

definition sticky_inv :: "world \<Rightarrow> bool" where
  "sticky_inv s =
     (distinct (stickyNotificationQueue s) \<and>
      list_all (\<lambda>h. h < length (notifications s)) (stickyNotificationQueue s))"

text \<open>The \<open>close()\<close> calls made between the state \<open>s\<close> and a later state \<open>s'\<close>.\<close>

definition new_closes :: "world \<Rightarrow> world \<Rightarrow> handle list" where
  "new_closes s s' = drop (length (closes s)) (closes s')"

subsection \<open>Collaborators for concrete runs\<close>

text \<open>A sanitizer that finds nothing to strip, a localisation that returns its key, and
  a user who accepts every dialog.\<close>

definition plain_collaborators :: collaborators where
  "plain_collaborators =
     \<lparr>sanitizeHtml = (\<lambda>markup. markup), baseText = (\<lambda>key. key), workflowId = ''wf-1'',
      confirm_dialog = (\<lambda>message headline options. Resolves)\<rparr>"

text \<open>The same, with a user who cancels every dialog: the component library rejects
  with the action \<open>cancel\<close>.\<close>

definition cancelling_collaborators :: collaborators where
  "cancelling_collaborators =
     \<lparr>sanitizeHtml = (\<lambda>markup. markup), baseText = (\<lambda>key. key), workflowId = ''wf-1'',
      confirm_dialog = (\<lambda>message headline options. Rejects (JStr ''cancel''))\<rparr>"

text \<open>A dialog layer whose rejection value is the string \<open>confirmed\<close>.\<close>

definition echoing_collaborators :: collaborators where
  "echoing_collaborators =
     \<lparr>sanitizeHtml = (\<lambda>markup. markup), baseText = (\<lambda>key. key), workflowId = ''wf-1'',
      confirm_dialog = (\<lambda>message headline options. Rejects (JStr ''confirmed''))\<rparr>"



text \<open>The notification of the specification's scenario: an error that stays until it
  is dismissed, about missing credentials.\<close>

definition credential_error_options :: notification_options where
  "credential_error_options =
     \<lparr>opt_title = ''Problem'', opt_message = Some ''Credentials for Slack are not set'',
      opt_type = Some TError, opt_duration = Some 0, opt_position = None, opt_onClick = None,
      opt_onClose = None, opt_customClass = None, opt_dangerouslyUseHTMLString = None\<rparr>"

text \<open>A notification whose options leave \<open>duration\<close> out.\<close>

definition unset_duration_options :: notification_options where
  "unset_duration_options =
     \<lparr>opt_title = ''Saved'', opt_message = Some ''Workflow saved'',
      opt_type = Some TSuccess, opt_duration = None, opt_position = None, opt_onClick = None,
      opt_onClose = None, opt_customClass = None, opt_dangerouslyUseHTMLString = None\<rparr>"

text \<open>The state after showing that notification twice from the start.\<close>

definition two_sticky :: world where
  "two_sticky =
     snd (showMessage plain_collaborators credential_error_options None
       (snd (showMessage plain_collaborators credential_error_options None initial_world)))"

subsection \<open>getExecutionError as the specification words it\<close>

text \<open>
  The specification of \<open>getExecutionError\<close>, written from its sentences rather than from
  the source, to be compared with the function above. The node name is resolved from a
  \<open>node\<close> field that is a plain name or a node object; the fixed templated sentence
  wraps the received error in quotes and \<open>strong\<close> tags.
\<close>

definition offending_node_name :: "execution_error \<Rightarrow> string option" where
  "offending_node_name e =
     (case ee_node e of
        None \<Rightarrow> None
      | Some (NodeString n) \<Rightarrow> Some n
      | Some (NodeObject (INode n)) \<Rightarrow> Some n
      | Some NodeNullish \<Rightarrow> None)"

definition problem_sentence :: "string \<Rightarrow> string" where
  "problem_sentence received =
     ''There was a problem executing the workflow:<br /><strong>'' @ dquote @ received
       @ dquote @ ''</strong>''"

definition getExecutionError_spec :: "run_data \<Rightarrow> string option" where
  "getExecutionError_spec data =
     (case error (resultData data) of
        None \<Rightarrow> Some ''There was a problem executing the workflow!''
      | Some e \<Rightarrow>
          (case (lastNodeExecuted (resultData data), ee_message e) of
             (Some (l # ls), Some (m # ms)) \<Rightarrow> Some (m # ms)
           | (Some (l # ls), _) \<Rightarrow> ee_description e
           | (_, Some (m # ms)) \<Rightarrow>
               (case offending_node_name e of
                  Some (n # ns) \<Rightarrow> Some (problem_sentence ((n # ns) @ '': '' @ (m # ms)))
                | _ \<Rightarrow> Some (problem_sentence (m # ms)))
           | _ \<Rightarrow> Some ''There was a problem executing the workflow!''))"

text \<open>The run data of the specification's example: last node \<open>Node1\<close>, error message
  \<open>boom\<close>; and run data without an error.\<close>

definition boom_run :: run_data where
  "boom_run =
     \<lparr>resultData = \<lparr>lastNodeExecuted = Some ''Node1'',
        error = Some \<lparr>ee_message = Some ''boom'', ee_description = None, ee_node = None\<rparr>\<rparr>\<rparr>"

definition clean_run :: run_data where
  "clean_run = \<lparr>resultData = \<lparr>lastNodeExecuted = Some ''Node1'', error = None\<rparr>\<rparr>"

text \<open>Run data with no last node, whose error has a message and a \<open>node\<close> key that
  holds \<open>undefined\<close>.\<close>

definition nullish_node_run :: run_data where
  "nullish_node_run =
     \<lparr>resultData = \<lparr>lastNodeExecuted = None,
        error = Some \<lparr>ee_message = Some ''boom'', ee_description = None,
                      ee_node = Some NodeNullish\<rparr>\<rparr>\<rparr>"

section \<open>Properties\<close>

subsection \<open>Substring search\<close>

lemma starts_with_iff: "starts_with s sub \<longleftrightarrow> (\<exists>q. s = sub @ q)"
  unfolding starts_with_def
  by (metis append_eq_conv_conj append_take_drop_id)

lemma str_includes_iff: "str_includes s sub \<longleftrightarrow> (\<exists>p q. s = p @ sub @ q)"
proof (induction s)
  case Nil
  then show ?case by auto
next
  case (Cons x xs)
  have "(\<exists>p q. x # xs = p @ sub @ q) \<longleftrightarrow> (\<exists>q. x # xs = sub @ q) \<or> (\<exists>p q. xs = p @ sub @ q)"
  proof
    assume "\<exists>p q. x # xs = p @ sub @ q"
    then obtain p q where pq: "x # xs = p @ sub @ q" by blast
    show "(\<exists>q. x # xs = sub @ q) \<or> (\<exists>p q. xs = p @ sub @ q)"
    proof (cases p)
      case Nil
      with pq show ?thesis by auto
    next
      case (Cons y ys)
      with pq have "xs = ys @ sub @ q" by simp
      then show ?thesis by blast
    qed
  next
    assume "(\<exists>q. x # xs = sub @ q) \<or> (\<exists>p q. xs = p @ sub @ q)"
    then show "\<exists>p q. x # xs = p @ sub @ q"
    proof
      assume "\<exists>q. x # xs = sub @ q"
      then obtain q where "x # xs = [] @ sub @ q" by auto
      then show ?thesis by blast
    next
      assume "\<exists>p q. xs = p @ sub @ q"
      then obtain p q where "x # xs = (x # p) @ sub @ q" by auto
      then show ?thesis by blast
    qed
  qed
  with Cons show ?case by (simp add: starts_with_iff)
qed

subsection \<open>The effect of showMessage, field by field\<close>

lemma showMessage_handle:
  "fst (showMessage c md t s) = length (notifications s)"
  by (simp add: showMessage_def Let_def Notification_def split: prod.split)

lemma showMessage_queue:
  "stickyNotificationQueue (snd (showMessage c md t s)) =
     stickyNotificationQueue s @ (if opt_duration md = Some 0 then [length (notifications s)] else [])"
  by (simp add: showMessage_def Let_def Notification_def track_def split: prod.split)

lemma showMessage_notifications:
  "notifications (snd (showMessage c md t s)) =
     notifications s @
       [md\<lparr>opt_message := sanitized_message c (opt_message md),
           opt_position := (if opt_position md = None then Some ''bottom-right'' else opt_position md),
           opt_dangerouslyUseHTMLString := Some True\<rparr>]"
  by (simp add: showMessage_def Let_def Notification_def track_def split: prod.split)

lemma showMessage_telemetry:
  "telemetry (snd (showMessage c md t s)) =
     telemetry s @
       (if opt_type md = Some TError \<and> with_default True t
        then [(''Instance FE emitted error'',
               [(''error_title'', JStr (opt_title md)),
                (''error_message'', js_opt (sanitized_message c (opt_message md))),
                (''caused_by_credential'',
                   JBool (causedByCredential (sanitized_message c (opt_message md)))),
                (''workflow_id'', JStr (workflowId c))])]
        else [])"
  by (simp add: showMessage_def Let_def Notification_def track_def split: prod.split)

lemma showMessage_others:
  "closes (snd (showMessage c md t s)) = closes s"
  "hooks (snd (showMessage c md t s)) = hooks s"
  "dialogs (snd (showMessage c md t s)) = dialogs s"
  "callbacks (snd (showMessage c md t s)) = callbacks s"
  by (simp_all add: showMessage_def Let_def Notification_def track_def split: prod.split)

subsection \<open>The effect of the other operations\<close>

lemma fold_close:
  "fold close q s = s\<lparr>closes := closes s @ q\<rparr>"
  by (induction q arbitrary: s) (simp_all add: close_def)

lemma clearAll_unfold:
  "clearAllStickyNotifications s =
     s\<lparr>closes := closes s @ stickyNotificationQueue s, stickyNotificationQueue := []\<rparr>"
  by (simp add: clearAllStickyNotifications_def fold_close)

lemma showToast_world:
  "snd (snd (showToast c config s)) =
     snd (showMessage c
       \<lparr>opt_title = cfg_title config, opt_message = Some (cfg_message config),
        opt_type = cfg_type config, opt_duration = cfg_duration config, opt_position = None,
        opt_onClick = cfg_onClick config, opt_onClose = cfg_onClose config,
        opt_customClass = cfg_customClass config, opt_dangerouslyUseHTMLString = None\<rparr> None s)"
  by (simp add: showToast_def Let_def split: prod.split)

lemma run_handler_keeps:
  "stickyNotificationQueue (run_handler f s) = stickyNotificationQueue s"
  "notifications (run_handler f s) = notifications s"
  by (induction f s rule: run_handler.induct) (simp_all add: close_def)

lemma showError_unfold:
  "collapsableDetails c e = Inr details \<Longrightarrow>
   showError c e title m s =
     Inr (track ''Instance FE emitted error''
            [(''error_title'', JStr title),
             (''error_description'', js_opt m),
             (''error_message'', JStr (err_message e)),
             (''caused_by_credential'', JBool (causedByCredential (Some (err_message e)))),
             (''workflow_id'', JStr (workflowId c))]
            (run_hook ''showMessage.showError''
               [(''title'', JStr title), (''message'', js_opt m),
                (''errorMessage'', JStr (err_message e))]
               (snd (showMessage c
                  \<lparr>opt_title = title,
                   opt_message = Some (nl 5 @ (if truthy m then interp m @ ''<br/>'' else [])
                                       @ nl 5 @ ''<i>'' @ err_message e @ ''</i>''
                                       @ nl 5 @ details),
                   opt_type = Some TError, opt_duration = Some 0, opt_position = None,
                   opt_onClick = None, opt_onClose = None, opt_customClass = None,
                   opt_dangerouslyUseHTMLString = None\<rparr> (Some False) s))))"
  by (simp add: showError_def Let_def case_prod_beta)

lemma showError_raises:
  "collapsableDetails c e = Inl x \<Longrightarrow> showError c e title m s = Inl x"
  by (simp add: showError_def Let_def)

subsection \<open>The credential classifier\<close>

text \<open>
  Claim C9. \<open>causedByCredential message\<close> is true if and only if \<open>message\<close> is a string
  in which both \<open>Credentials for\<close> and \<open>are not set\<close> occur as substrings; for
  \<open>undefined\<close> it is false, and so it is for the empty string, in which neither occurs.
\<close>

theorem causedByCredential_iff:
  "causedByCredential message =
     (case message of
        None \<Rightarrow> False
      | Some m \<Rightarrow> (\<exists>p q. m = p @ ''Credentials for'' @ q) \<and> (\<exists>p q. m = p @ ''are not set'' @ q))"
  by (cases message) (auto simp: causedByCredential_def str_includes_iff)

text \<open>The three calls the specification lists, and the empty string.\<close>

lemma causedByCredential_examples:
  "causedByCredential (Some ''Credentials for X are not set'')"
  "\<not> causedByCredential (Some ''some other error'')"
  "\<not> causedByCredential None"
  "\<not> causedByCredential (Some [])"
  by (simp_all add: causedByCredential_def starts_with_def)

subsection \<open>The confirm dialogs\<close>

lemma confirmMessage_unfold:
  "confirmMessage c message headline type_arg confirmButtonText cancelButtonText s =
     ((case confirm_dialog c (sanitizeHtml c message) headline
              (confirmMessage_options c type_arg confirmButtonText cancelButtonText) of
         Resolves \<Rightarrow> Fulfilled True
       | Rejects e \<Rightarrow> Fulfilled False
       | Pending \<Rightarrow> Unsettled),
      s\<lparr>dialogs := dialogs s @ [(sanitizeHtml c message, headline,
             confirmMessage_options c type_arg confirmButtonText cancelButtonText)]\<rparr>)"
  by (cases "confirm_dialog c (sanitizeHtml c message) headline
              (confirmMessage_options c type_arg confirmButtonText cancelButtonText)")
     (simp_all add: confirmMessage_def try_catch_def then_return_def dollar_confirm_def Let_def)

lemma confirmModal_unfold:
  "confirmModal c message headline type_arg confirmButtonText cancelButtonText showClose_arg s =
     ((case confirm_dialog c (sanitizeHtml c message) headline
              (confirmModal_options c type_arg confirmButtonText cancelButtonText showClose_arg) of
         Resolves \<Rightarrow> Fulfilled (JStr ''confirmed'')
       | Rejects e \<Rightarrow> Fulfilled e
       | Pending \<Rightarrow> Unsettled),
      s\<lparr>dialogs := dialogs s @ [(sanitizeHtml c message, headline,
             confirmModal_options c type_arg confirmButtonText cancelButtonText showClose_arg)]\<rparr>)"
  by (cases "confirm_dialog c (sanitizeHtml c message) headline
              (confirmModal_options c type_arg confirmButtonText cancelButtonText showClose_arg)")
     (simp_all add: confirmModal_def try_catch_def then_return_def dollar_confirm_def Let_def)

subsection \<open>The queue invariant holds in every reachable state\<close>

lemma count_list_distinct:
  "distinct xs \<Longrightarrow> x \<in> set xs \<Longrightarrow> count_list xs x = 1"
  by (induction xs) (auto simp: count_list_0_iff)

lemma sticky_inv_initial: "sticky_inv initial_world"
  by (simp add: sticky_inv_def initial_world_def)

lemma sticky_inv_showMessage:
  "sticky_inv s \<Longrightarrow> sticky_inv (snd (showMessage c md t s))"
  by (auto simp: sticky_inv_def showMessage_queue showMessage_notifications list_all_iff)

lemma sticky_inv_clear: "sticky_inv (clearAllStickyNotifications s)"
  by (simp add: sticky_inv_def clearAll_unfold)

lemma sticky_inv_click: "sticky_inv s \<Longrightarrow> sticky_inv (click h s)"
  by (simp add: sticky_inv_def click_def run_handler_keeps split: option.split)

lemma sticky_inv_close: "sticky_inv s \<Longrightarrow> sticky_inv (close h s)"
  by (simp add: sticky_inv_def close_def)

lemma sticky_inv_showError:
  assumes inv: "sticky_inv s" and run: "showError c e title m s = Inr s'"
  shows "sticky_inv s'"
proof (cases "collapsableDetails c e")
  case (Inl x)
  with run show ?thesis by (simp add: showError_raises)
next
  case (Inr details)
  from run show ?thesis
    unfolding showError_unfold [OF Inr]
    using sticky_inv_showMessage [OF inv]
    by (auto simp: sticky_inv_def track_def run_hook_def)
qed

lemma reachable_sticky_inv: "reachable c s \<Longrightarrow> sticky_inv s"
proof (induction rule: reachable.induct)
  case r_init
  show ?case by (rule sticky_inv_initial)
next
  case (r_showMessage s md t)
  then show ?case by (simp add: sticky_inv_showMessage)
next
  case (r_showToast s config)
  then show ?case by (simp add: showToast_world sticky_inv_showMessage)
next
  case (r_showAlert s config)
  then show ?case by (simp add: showAlert_def sticky_inv_def)
next
  case (r_showError s e title m s')
  then show ?case by (blast intro: sticky_inv_showError)
next
  case (r_clear s)
  show ?case by (rule sticky_inv_clear)
next
  case (r_confirmMessage s message headline ty cbt cnt)
  then show ?case by (simp add: confirmMessage_unfold sticky_inv_def)
next
  case (r_confirmModal s message headline ty cbt cnt sc)
  then show ?case by (simp add: confirmModal_unfold sticky_inv_def)
next
  case (r_close s h)
  then show ?case by (simp add: sticky_inv_close)
next
  case (r_click s h)
  then show ?case by (simp add: sticky_inv_click)
qed

subsection \<open>The results of the confirm dialogs\<close>

text \<open>
  Claim C3. The promise returned by \<open>confirmMessage\<close> is fulfilled with \<open>true\<close> exactly
  when the dialog's promise resolves, and fulfilled with \<open>false\<close> exactly when the dialog
  rejects, whatever the rejection value; it is never rejected, so no exception reaches
  the caller. While the dialog stays open the promise is not settled.
\<close>

theorem confirmMessage_result:
  "fst (confirmMessage c message headline type_arg confirmButtonText cancelButtonText s) =
     (case confirm_dialog c (sanitizeHtml c message) headline
             (confirmMessage_options c type_arg confirmButtonText cancelButtonText) of
        Resolves \<Rightarrow> Fulfilled True
      | Rejects e \<Rightarrow> Fulfilled False
      | Pending \<Rightarrow> Unsettled)
   \<and> (fst (confirmMessage c message headline type_arg confirmButtonText cancelButtonText s)
        = Fulfilled True) =
     (confirm_dialog c (sanitizeHtml c message) headline
        (confirmMessage_options c type_arg confirmButtonText cancelButtonText) = Resolves)
   \<and> (fst (confirmMessage c message headline type_arg confirmButtonText cancelButtonText s)
        = Fulfilled False) =
     (\<exists>e. confirm_dialog c (sanitizeHtml c message) headline
        (confirmMessage_options c type_arg confirmButtonText cancelButtonText) = Rejects e)
   \<and> (\<forall>e. fst (confirmMessage c message headline type_arg confirmButtonText cancelButtonText s)
          \<noteq> Rejected e)"
  by (simp add: confirmMessage_unfold split: dialog_outcome.split)

text \<open>
  Claim C4, as the code has it. The promise returned by \<open>confirmModal\<close> is fulfilled
  with the string \<open>confirmed\<close> when the dialog's promise resolves, and fulfilled with the
  dialog's rejection value itself, unchanged, when the dialog rejects; it is never
  rejected, so no exception reaches the caller. While the dialog stays open the promise
  is not settled. Hence the result is \<open>confirmed\<close> exactly when the dialog resolved or
  rejected with the very string \<open>confirmed\<close>: the rejection value is handed on as it
  is, whatever it is.
\<close>

theorem confirmModal_result:
  "fst (confirmModal c message headline type_arg confirmButtonText cancelButtonText showClose_arg s) =
     (case confirm_dialog c (sanitizeHtml c message) headline
             (confirmModal_options c type_arg confirmButtonText cancelButtonText showClose_arg) of
        Resolves \<Rightarrow> Fulfilled (JStr ''confirmed'')
      | Rejects e \<Rightarrow> Fulfilled e
      | Pending \<Rightarrow> Unsettled)
   \<and> (\<forall>e. fst (confirmModal c message headline type_arg confirmButtonText cancelButtonText
                 showClose_arg s) \<noteq> Rejected e)
   \<and> (fst (confirmModal c message headline type_arg confirmButtonText cancelButtonText
              showClose_arg s) = Fulfilled (JStr ''confirmed''))
     = (confirm_dialog c (sanitizeHtml c message) headline
          (confirmModal_options c type_arg confirmButtonText cancelButtonText showClose_arg)
        = Resolves
        \<or> confirm_dialog c (sanitizeHtml c message) headline
          (confirmModal_options c type_arg confirmButtonText cancelButtonText showClose_arg)
        = Rejects (JStr ''confirmed''))"
  by (simp add: confirmModal_unfold split: dialog_outcome.split)

text \<open>The theorem at work: a user who accepts, and a user who cancels.\<close>

theorem confirmModal_result_witness:
  "fst (confirmModal plain_collaborators ''Delete?'' ''Confirm'' None None None None initial_world)
     = Fulfilled (JStr ''confirmed'')
   \<and> fst (confirmModal cancelling_collaborators ''Delete?'' ''Confirm'' None None None None
            initial_world)
     = Fulfilled (JStr ''cancel'')"
proof -
  have a: "confirm_dialog plain_collaborators m h opts = Resolves" for m h opts
    by (simp add: plain_collaborators_def)
  have b: "confirm_dialog cancelling_collaborators m h opts = Rejects (JStr ''cancel'')" for m h opts
    by (simp add: cancelling_collaborators_def)
  from confirmModal_result
         [of plain_collaborators "''Delete?''" "''Confirm''" None None None None initial_world]
  have "fst (confirmModal plain_collaborators ''Delete?'' ''Confirm'' None None None None
               initial_world) = Fulfilled (JStr ''confirmed'')"
    by (simp add: a)
  moreover
  from confirmModal_result
         [of cancelling_collaborators "''Delete?''" "''Confirm''" None None None None initial_world]
  have "fst (confirmModal cancelling_collaborators ''Delete?'' ''Confirm'' None None None None
               initial_world) = Fulfilled (JStr ''cancel'')"
    by (simp add: b)
  ultimately show ?thesis by blast
qed

text \<open>
  Claim C4 as stated fails: it asks for the result to be \<open>confirmed\<close> exactly when the
  dialog resolves. When the dialog rejects with the string \<open>confirmed\<close>, the result is
  \<open>confirmed\<close> although the dialog did not resolve.
\<close>

theorem confirmModal_sentinel_counterexample:
  "\<not> ((fst (confirmModal echoing_collaborators ''Delete?'' ''Confirm'' None None None None
               initial_world) = Fulfilled (JStr ''confirmed''))
       = (confirm_dialog echoing_collaborators (sanitizeHtml echoing_collaborators ''Delete?'')
            ''Confirm'' (confirmModal_options echoing_collaborators None None None None)
          = Resolves))"
  by (simp add: confirmModal_unfold echoing_collaborators_def)

text \<open>
  Claim C10. Both \<open>confirmMessage\<close> and \<open>confirmModal\<close> present exactly one dialog, whose
  message is \<open>sanitizeHtml\<close> applied to the caller's message, with the caller's headline
  and with options in which \<open>dangerouslyUseHTMLString\<close> is true.
\<close>

theorem confirm_dialogs_sanitized:
  "dialogs (snd (confirmMessage c message headline type_arg confirmButtonText cancelButtonText s)) =
     dialogs s @ [(sanitizeHtml c message, headline,
                   confirmMessage_options c type_arg confirmButtonText cancelButtonText)]
   \<and> mb_dangerouslyUseHTMLString
        (confirmMessage_options c type_arg confirmButtonText cancelButtonText) = True
   \<and> dialogs (snd (confirmModal c message headline type_arg confirmButtonText cancelButtonText
                     showClose_arg s)) =
     dialogs s @ [(sanitizeHtml c message, headline,
                   confirmModal_options c type_arg confirmButtonText cancelButtonText showClose_arg)]
   \<and> mb_dangerouslyUseHTMLString
        (confirmModal_options c type_arg confirmButtonText cancelButtonText showClose_arg) = True"
  by (simp add: confirmMessage_unfold confirmModal_unfold
      confirmMessage_options_def confirmModal_options_def)

subsection \<open>The sticky queue\<close>

text \<open>
  Claim C1, as the code has it. In a state where the queue invariant holds (every
  reachable state), the handle returned by \<open>showMessage\<close> is in the queue right after
  the call if and only if the options carry \<open>duration\<close> equal to \<open>0\<close>; in that case the
  handle is appended at the end. With any other \<open>duration\<close>, a non-zero number or none at
  all, the queue is left as it was. The test in the source is \<^verbatim>\<open>duration === 0\<close>,
  which \<open>undefined\<close> does not pass.
\<close>

theorem showMessage_sticky_iff:
  assumes "sticky_inv s"
  shows "(fst (showMessage c md t s) \<in> set (stickyNotificationQueue (snd (showMessage c md t s))))
           = (opt_duration md = Some 0)
         \<and> stickyNotificationQueue (snd (showMessage c md t s)) =
             stickyNotificationQueue s @
               (if opt_duration md = Some 0 then [fst (showMessage c md t s)] else [])"
  using assms
  by (auto simp: sticky_inv_def showMessage_queue showMessage_handle list_all_iff)

text \<open>The theorem at work: from the start, the sticky error notification is queued and
  the notification without a duration is not.\<close>

theorem showMessage_sticky_iff_witness:
  "sticky_inv initial_world
   \<and> fst (showMessage plain_collaborators credential_error_options None initial_world)
       \<in> set (stickyNotificationQueue
                (snd (showMessage plain_collaborators credential_error_options None initial_world)))
   \<and> stickyNotificationQueue
       (snd (showMessage plain_collaborators unset_duration_options None initial_world)) = []"
proof -
  have d1: "opt_duration credential_error_options = Some 0"
    by (simp add: credential_error_options_def)
  have d2: "opt_duration unset_duration_options = None"
    by (simp add: unset_duration_options_def)
  have q0: "stickyNotificationQueue initial_world = []"
    by (simp add: initial_world_def)
  from showMessage_sticky_iff
         [OF sticky_inv_initial, of plain_collaborators credential_error_options None] d1
  have a: "fst (showMessage plain_collaborators credential_error_options None initial_world)
       \<in> set (stickyNotificationQueue
                (snd (showMessage plain_collaborators credential_error_options None initial_world)))"
    by simp
  from showMessage_sticky_iff
         [OF sticky_inv_initial, of plain_collaborators unset_duration_options None] d2 q0
  have b: "stickyNotificationQueue
       (snd (showMessage plain_collaborators unset_duration_options None initial_world)) = []"
    by simp
  from sticky_inv_initial a b show ?thesis by blast
qed

text \<open>
  Claim C1 as stated fails: it asks for the handle to be queued when the duration is
  zero or unset. Shown from the start with its duration left out, a notification does
  not enter the queue.
\<close>

theorem showMessage_unset_duration_counterexample:
  "\<not> ((fst (showMessage plain_collaborators unset_duration_options None initial_world)
         \<in> set (stickyNotificationQueue
                  (snd (showMessage plain_collaborators unset_duration_options None initial_world))))
       = (opt_duration unset_duration_options = Some 0 \<or> opt_duration unset_duration_options = None))"
  by (simp add: showMessage_queue unset_duration_options_def initial_world_def)

text \<open>
  Claim C7. After \<open>clearAllStickyNotifications\<close> the queue is empty, and the \<open>close()\<close>
  calls it made are the former queue itself, entry by entry in order: one call for each
  entry. In every reachable state the entries are distinct handles, so \<open>close()\<close> is
  called exactly once on each handle that was in the queue and on no other.
\<close>

theorem clearAll_closes_each_once:
  "stickyNotificationQueue (clearAllStickyNotifications s) = []
   \<and> new_closes s (clearAllStickyNotifications s) = stickyNotificationQueue s
   \<and> (reachable c s \<longrightarrow>
        (\<forall>h. count_list (new_closes s (clearAllStickyNotifications s)) h
               = (if h \<in> set (stickyNotificationQueue s) then 1 else 0)))"
  by (auto simp add: clearAll_unfold new_closes_def count_list_distinct count_list_0_iff
      dest!: reachable_sticky_inv simp: sticky_inv_def)

text \<open>The theorem at work on a queue of two notifications.\<close>

theorem clearAll_closes_each_once_witness:
  "reachable plain_collaborators two_sticky
   \<and> stickyNotificationQueue two_sticky = [0, 1]
   \<and> stickyNotificationQueue (clearAllStickyNotifications two_sticky) = []
   \<and> new_closes two_sticky (clearAllStickyNotifications two_sticky) = [0, 1]
   \<and> count_list (new_closes two_sticky (clearAllStickyNotifications two_sticky)) 0 = 1
   \<and> count_list (new_closes two_sticky (clearAllStickyNotifications two_sticky)) 1 = 1"
proof -
  have r: "reachable plain_collaborators two_sticky"
    unfolding two_sticky_def by (intro r_showMessage r_init)
  have q: "stickyNotificationQueue two_sticky = [0, 1]"
    by (simp add: two_sticky_def showMessage_queue showMessage_notifications
        credential_error_options_def initial_world_def)
  from clearAll_closes_each_once [of two_sticky plain_collaborators] r q
  show ?thesis by simp
qed

subsection \<open>Telemetry of showMessage\<close>




subsection \<open>getExecutionError\<close>

text \<open>
  Whenever the function returns, it returns what the specification says: with a
  non-empty \<open>lastNodeExecuted\<close> and an error, the error's message, or its description
  when the message is missing or empty; without an error, or with an error that has no
  message, the fixed sentence; and otherwise the error's message, prefixed with the
  node's name and a colon when the \<open>node\<close> field gives a non-empty name, inside the fixed
  templated sentence. It raises in one case only: no last node, an error with a message,
  and a \<open>node\<close> key that holds \<open>undefined\<close> or \<open>null\<close>.
\<close>

lemma getExecutionError_matches_spec:
  "getExecutionError data =
     (if \<not> truthy (lastNodeExecuted (resultData data))
         \<and> (\<exists>e. error (resultData data) = Some e \<and> truthy (ee_message e)
                  \<and> ee_node e = Some NodeNullish)
      then Inl TypeError
      else Inr (getExecutionError_spec data))"
proof (cases "error (resultData data)")
  case None
  then show ?thesis
    by (simp add: getExecutionError_def getExecutionError_spec_def generic_failure_def Let_def
        split: bool.split)
next
  case (Some e)
  then show ?thesis
    by (auto simp: getExecutionError_def getExecutionError_spec_def generic_failure_def Let_def
        truthy_def str_or_def interp_def offending_node_name_def problem_sentence_def
        split: bool.split option.split list.split node_ref.split inode.split)
qed

lemma getExecutionError_examples:
  "getExecutionError boom_run = Inr (Some ''boom'')"
  "getExecutionError clean_run = Inr (Some ''There was a problem executing the workflow!'')"
  by (simp_all add: getExecutionError_def boom_run_def clean_run_def truthy_def str_or_def
      generic_failure_def)

text \<open>
  Claim C8 asks that \<open>getExecutionError\<close> return, for an error with a message and no
  last node, that message in the fixed templated sentence, with the node's name in
  front when the \<open>node\<close> field gives one. The source tests for the key with
  \<open>'node' in error\<close> and then reads \<open>error.node!.name\<close> unless the value is a string.
  When the key is there and holds \<open>undefined\<close> (or \<open>null\<close>) the read raises a
  \<open>TypeError\<close>, and the function returns nothing, whatever the message and the
  description are.
\<close>

theorem getExecutionError_raises_on_nullish_node:
  "getExecutionError nullish_node_run = Inl TypeError
   \<and> getExecutionError
        \<lparr>resultData = \<lparr>lastNodeExecuted = None,
           error = Some \<lparr>ee_message = Some (m # ms), ee_description = d,
                         ee_node = Some NodeNullish\<rparr>\<rparr>\<rparr> = Inl TypeError
   \<and> getExecutionError
        \<lparr>resultData = \<lparr>lastNodeExecuted = Some [],
           error = Some \<lparr>ee_message = Some (m # ms), ee_description = d,
                         ee_node = Some NodeNullish\<rparr>\<rparr>\<rparr> = Inl TypeError"
  by (simp add: getExecutionError_def nullish_node_run_def truthy_def)

subsection \<open>showError\<close>

text \<open>The details block: left out when the description is missing or empty, and
  otherwise the node's name with the description, cut after 500 characters and followed
  by three dots when it is longer. Without a node, reading \<open>node.name\<close> raises.\<close>

lemma collapsableDetails_omitted:
  "\<not> truthy (err_description e) \<Longrightarrow> collapsableDetails c e = Inr []"
  by (simp add: collapsableDetails_def truthy_def split: option.splits)

lemma collapsableDetails_block:
  assumes "err_description e = Some d" "d \<noteq> []" "err_node e = Some n"
  shows "collapsableDetails c e =
     Inr (nl 4 @ ''<br>'' @ nl 4 @ ''<br>'' @ nl 4 @ ''<details>''
          @ nl 5 @ ''<summary''
          @ nl 6 @ ''style='' @ dquote
          @ ''color: #ff6d5a; font-weight: bold; cursor: pointer;'' @ dquote
          @ nl 5 @ ''>''
          @ nl 6 @ baseText c ''showMessage.showDetails''
          @ nl 5 @ ''</summary>''
          @ nl 5 @ ''<p>'' @ node_name n @ '': ''
                 @ (if length d > 500 then take 500 d @ ''...'' else d) @ ''</p>''
          @ nl 4 @ ''</details>''
          @ nl 3)"
  using assms by (simp add: collapsableDetails_def slice0_def Let_def)

lemma collapsableDetails_raises:
  "err_description e = Some d \<Longrightarrow> d \<noteq> [] \<Longrightarrow> err_node e = None \<Longrightarrow>
   collapsableDetails c e = Inl TypeError"
  by (simp add: collapsableDetails_def Let_def)

lemma sanitized_body: "sanitized_message c (Some (nl k @ rest)) = Some (sanitizeHtml c (nl k @ rest))"
  by (simp add: sanitized_message_def truthy_def nl_def)

text \<open>When the details block can be built, \<open>showError\<close> shows one sticky notification of
  type \<open>error\<close> whose message is the sanitized body (the caller's message line, the
  error's message in italics, the details block), runs the external hook once and emits
  one telemetry event; the nested \<open>showMessage\<close> is called with tracking off and adds
  none.\<close>

lemma showError_shown:
  assumes "collapsableDetails c e = Inr details"
  shows "\<exists>s'. showError c e title m s = Inr s'
     \<and> notifications s' = notifications s @
          [\<lparr>opt_title = title,
            opt_message = Some (sanitizeHtml c
               (nl 5 @ (if truthy m then interp m @ ''<br/>'' else [])
                @ nl 5 @ ''<i>'' @ err_message e @ ''</i>''
                @ nl 5 @ details)),
            opt_type = Some TError, opt_duration = Some 0,
            opt_position = Some ''bottom-right'', opt_onClick = None, opt_onClose = None,
            opt_customClass = None, opt_dangerouslyUseHTMLString = Some True\<rparr>]
     \<and> stickyNotificationQueue s' = stickyNotificationQueue s @ [length (notifications s)]
     \<and> telemetry s' = telemetry s @
          [(''Instance FE emitted error'',
            [(''error_title'', JStr title),
             (''error_description'', js_opt m),
             (''error_message'', JStr (err_message e)),
             (''caused_by_credential'', JBool (causedByCredential (Some (err_message e)))),
             (''workflow_id'', JStr (workflowId c))])]
     \<and> hooks s' = hooks s @
          [(''showMessage.showError'',
            [(''title'', JStr title), (''message'', js_opt m),
             (''errorMessage'', JStr (err_message e))])]"
  by (simp add: showError_unfold [OF assms] track_def run_hook_def showMessage_notifications
      showMessage_queue showMessage_telemetry showMessage_others sanitized_body with_default_def)

text \<open>
  Claim C2 asks, for every call of \<open>showError\<close>, for a sticky error notification, one
  telemetry event and one hook invocation. The source does not get that far when the
  error has a non-empty description and no node: \<open>collapsableDetails\<close> checks the
  description only and then reads \<open>node.name\<close>, which raises a \<open>TypeError\<close> while the
  message is being composed, before \<open>showMessage\<close>, the hook and the telemetry call.
\<close>

theorem showError_raises_without_node:
  "showError c \<lparr>err_message = msg, err_description = Some (d # ds), err_node = None\<rparr> title m s
     = Inl TypeError"
  by (simp add: showError_raises collapsableDetails_raises)

subsection \<open>showToast\<close>

lemma showToast_unfold:
  "showToast c config s =
     (length (notifications s),
      (if cfg_closeOnClick config = Some True
       then config\<lparr>cfg_onClick := Some (CloseThenCall (length (notifications s)) (cfg_onClick config))\<rparr>
       else config),
      snd (showMessage c
       \<lparr>opt_title = cfg_title config, opt_message = Some (cfg_message config),
        opt_type = cfg_type config, opt_duration = cfg_duration config, opt_position = None,
        opt_onClick = cfg_onClick config, opt_onClose = cfg_onClose config,
        opt_customClass = cfg_customClass config, opt_dangerouslyUseHTMLString = None\<rparr> None s))"
  by (simp add: showToast_def Let_def case_prod_beta showMessage_handle)

text \<open>Run on its own, the closure closes the notification first and then calls the
  caller's handler.\<close>

lemma wrapper_closes_first:
  "closes (run_handler (CloseThenCall h (Some (Callback k))) s) = closes s @ [h]"
  "callbacks (run_handler (CloseThenCall h (Some (Callback k))) s) = callbacks s @ [k]"
  by (simp_all add: close_def)

text \<open>
  Claim C6 asks that, with \<open>closeOnClick\<close> set and a handler supplied, the click handler
  of the displayed notification closes the notification and then runs the caller's
  handler. The source builds that closure only after \<open>showMessage\<close> has created the
  notification from the caller's own handler, and stores it in \<open>config.onClick\<close>, which
  nothing reads afterwards. So the displayed notification carries the caller's handler
  unwrapped, the closure sits in the caller's object, and a click on the notification
  calls \<open>close()\<close> on nothing.
\<close>

theorem showToast_click_handler_not_wrapped:
  "opt_onClick (notifications (snd (snd (showToast c
       (config\<lparr>cfg_closeOnClick := Some True, cfg_onClick := Some (Callback k)\<rparr>) s)))
     ! fst (showToast c (config\<lparr>cfg_closeOnClick := Some True, cfg_onClick := Some (Callback k)\<rparr>) s))
     = Some (Callback k)
   \<and> cfg_onClick (fst (snd (showToast c
       (config\<lparr>cfg_closeOnClick := Some True, cfg_onClick := Some (Callback k)\<rparr>) s)))
     = Some (CloseThenCall
         (fst (showToast c (config\<lparr>cfg_closeOnClick := Some True, cfg_onClick := Some (Callback k)\<rparr>) s))
         (Some (Callback k)))
   \<and> closes (click
         (fst (showToast c (config\<lparr>cfg_closeOnClick := Some True, cfg_onClick := Some (Callback k)\<rparr>) s))
         (snd (snd (showToast c
            (config\<lparr>cfg_closeOnClick := Some True, cfg_onClick := Some (Callback k)\<rparr>) s))))
     = closes s"
  by (simp add: showToast_unfold showMessage_notifications showMessage_others click_def)

end
